theory Spec2Isabelle
  imports Complex_Main
begin

section \<open>Data model\<close>

text \<open>
  The notebook \<^verbatim>\<open>AccAlt.ipynb\<close> works on two-dimensional numpy arrays of
  floats. An array is modelled as the list of its rows, and a float as a real number:
  rounding is not modelled. The one place where the source produces a non-finite
  float that decides control flow, the relative residual
  \<^verbatim>\<open>norm(D - L - S,'fro')/norm(D,'fro')\<close>, has a type of its own below.
\<close>

type_synonym matrix = "real list list"

text \<open>The exceptions a call can end with.\<close>

datatype error = IndexError | ZeroDivisionError | ValueError | LinAlgError

text \<open>A statement that may raise, followed by the rest of the function.\<close>

definition and_then :: "error + 'a \<Rightarrow> ('a \<Rightarrow> error + 'b) \<Rightarrow> error + 'b" where
  "and_then m f = (case m of Inl e \<Rightarrow> Inl e | Inr v \<Rightarrow> f v)"

text \<open>\<^verbatim>\<open>xs[k]\<close> for a non-negative \<^verbatim>\<open>k\<close>.\<close>

definition index :: "'a list \<Rightarrow> nat \<Rightarrow> error + 'a" where
  "index xs k = (if k < length xs then Inr (xs ! k) else Inl IndexError)"

subsection \<open>Array operations of numpy used by the notebook\<close>

definition nrows :: "matrix \<Rightarrow> nat" where
  "nrows A = length A"

definition ncols :: "matrix \<Rightarrow> nat" where
  "ncols A = (case A of [] \<Rightarrow> 0 | row # _ \<Rightarrow> length row)"

definition col :: "matrix \<Rightarrow> nat \<Rightarrow> real list" where
  "col A j = map (\<lambda>row. row ! j) A"

definition dot :: "real list \<Rightarrow> real list \<Rightarrow> real" where
  "dot xs ys = sum_list (map2 (*) xs ys)"

text \<open>\<^verbatim>\<open>A.T\<close>, \<^verbatim>\<open>A @ B\<close> and \<^verbatim>\<open>A - B\<close>. The model is for
  operands of matching shapes; a shape mismatch (numpy's ValueError) is not modelled.\<close>

definition matT :: "matrix \<Rightarrow> matrix" where
  "matT A = map (col A) [0..<ncols A]"

definition mat_mul :: "matrix \<Rightarrow> matrix \<Rightarrow> matrix" where
  "mat_mul A B = map (\<lambda>row. map (\<lambda>j. dot row (col B j)) [0..<ncols B]) A"

definition mat_sub :: "matrix \<Rightarrow> matrix \<Rightarrow> matrix" where
  "mat_sub A B = map2 (map2 (-)) A B"

text \<open>\<^verbatim>\<open>np.diag(s)\<close> of a vector, \<^verbatim>\<open>np.hstack([A, B])\<close>,
  \<^verbatim>\<open>np.zeros_like(A)\<close>, \<^verbatim>\<open>np.block([[A, B], [C, E]])\<close> and the slice
  \<^verbatim>\<open>A[:, :r]\<close>.\<close>

definition diag :: "real list \<Rightarrow> matrix" where
  "diag s = map (\<lambda>i. map (\<lambda>j. if i = j then s ! i else 0) [0..<length s]) [0..<length s]"

definition hstack :: "matrix \<Rightarrow> matrix \<Rightarrow> matrix" where
  "hstack A B = map2 (@) A B"

definition zeros_like :: "matrix \<Rightarrow> matrix" where
  "zeros_like A = map (map (\<lambda>_. 0)) A"

definition block :: "matrix \<Rightarrow> matrix \<Rightarrow> matrix \<Rightarrow> matrix \<Rightarrow> matrix" where
  "block A B C E = hstack A B @ hstack C E"

definition take_cols :: "nat \<Rightarrow> matrix \<Rightarrow> matrix" where
  "take_cols r A = map (take r) A"

text \<open>\<^verbatim>\<open>np.sum(A**2, axis=1)\<close> and \<^verbatim>\<open>norm(A, 'fro')\<close>.\<close>

definition row_norm_square :: "matrix \<Rightarrow> real list" where
  "row_norm_square A = map (\<lambda>row. sum_list (map (\<lambda>v. v ^ 2) row)) A"

definition norm_fro :: "matrix \<Rightarrow> real" where
  "norm_fro A = sqrt (sum_list (row_norm_square A))"

text \<open>
  Dividing one numpy float by another never raises: a zero divisor gives
  \<^verbatim>\<open>inf\<close>, \<^verbatim>\<open>-inf\<close> or \<^verbatim>\<open>nan\<close> (with a warning). A comparison
  with \<^verbatim>\<open>nan\<close> is false.
\<close>

datatype npfloat = Fin real | PosInf | NegInf | NaN

definition np_div :: "real \<Rightarrow> real \<Rightarrow> npfloat" where
  "np_div a b = (if b \<noteq> 0 then Fin (a / b)
                 else if a = 0 then NaN else if a > 0 then PosInf else NegInf)"

definition np_less :: "npfloat \<Rightarrow> real \<Rightarrow> bool" where
  "np_less x e = (case x of Fin v \<Rightarrow> v < e | NegInf \<Rightarrow> True | PosInf \<Rightarrow> False | NaN \<Rightarrow> False)"

subsection \<open>The linear-algebra library\<close>

text \<open>
  \<^verbatim>\<open>scipy.sparse.linalg.svds\<close>, \<^verbatim>\<open>scipy.linalg.svd\<close> (called with
  \<^verbatim>\<open>full_matrices=False\<close>) and \<^verbatim>\<open>scipy.linalg.qr\<close> (called with
  \<^verbatim>\<open>mode='economic'\<close>) are not part of the repository. They are parameters of
  the model; each may raise. The two decompositions return \<^verbatim>\<open>(U, s, Vh)\<close>, the
  singular values as a vector.
\<close>

record linalg =
  svds :: "matrix \<Rightarrow> nat \<Rightarrow> error + (matrix \<times> real list \<times> matrix)"
  svd :: "matrix \<Rightarrow> error + (matrix \<times> real list \<times> matrix)"
  qr :: "matrix \<Rightarrow> error + (matrix \<times> matrix)"

subsection \<open>Thresholding operators\<close>

text \<open>
  \<^verbatim>\<open>def soft_threshold(x, threshold):
    return np.sign(x) * np.maximum(np.abs(x) - threshold, 0)
def hard_threshold(x, threshold):
    return x * (np.abs(x) >= threshold)\<close>
  Both are elementwise; the comparison yields a boolean array that multiplies as 1 or 0.
  Neither function inspects the sign of \<^verbatim>\<open>threshold\<close> and neither has a
  \<^verbatim>\<open>raise\<close>.
\<close>

definition soft_threshold :: "matrix \<Rightarrow> real \<Rightarrow> matrix" where
  "soft_threshold x threshold = map (map (\<lambda>v. sgn v * max (\<bar>v\<bar> - threshold) 0)) x"

definition hard_threshold :: "matrix \<Rightarrow> real \<Rightarrow> matrix" where
  "hard_threshold x threshold =
     map (map (\<lambda>v. v * (if \<bar>v\<bar> \<ge> threshold then 1 else 0))) x"

subsection \<open>The trimmer\<close>

text \<open>
  \<^verbatim>\<open>big_rows_U = row_norm_square_U > (mu_U * r / m)
U[big_rows_U, :] = (U[big_rows_U, :].T * ((mu_U * r / m) / np.sqrt(row_norm_square_U[big_rows_U]))).T\<close>
  Every row whose squared norm \<open>s\<close> exceeds the bound \<open>b\<close> is multiplied by
  \<open>b / sqrt s\<close>; the other rows are left as they are.
\<close>

definition rescale_rows :: "matrix \<Rightarrow> real \<Rightarrow> matrix" where
  "rescale_rows A b =
     map (\<lambda>row. let s = sum_list (map (\<lambda>v. v ^ 2) row)
                in if s > b then map (\<lambda>v. v * (b / sqrt s)) row else row) A"

text \<open>
  The assignment \<^verbatim>\<open>U[big_rows_U, :] = ...\<close> writes into the array object that the
  caller passed. The arguments \<^verbatim>\<open>U\<close> and \<^verbatim>\<open>V\<close> are therefore references into
  a store of arrays, and \<open>trim\<close> returns the store it leaves behind. \<open>trim_body\<close> is
  the function up to its \<^verbatim>\<open>return\<close> statement, with the values of the locals
  \<^verbatim>\<open>U_out\<close>, \<^verbatim>\<open>Sig_out\<close>, \<^verbatim>\<open>V_out\<close>; \<open>trim\<close> returns what
  \<^verbatim>\<open>return U_out, V_out\<close> returns. \<^verbatim>\<open>mu_U * r / m\<close> is a division of Python
  numbers and raises for an array without rows.
\<close>

type_synonym ref = nat
type_synonym store = "ref \<Rightarrow> matrix"

definition trim_body ::
  "linalg \<Rightarrow> ref \<Rightarrow> matrix \<Rightarrow> ref \<Rightarrow> real \<Rightarrow> real \<Rightarrow> store
     \<Rightarrow> error + (matrix \<times> real list \<times> matrix \<times> store)" where
  "trim_body lib U Sig V mu_U mu_V h =
     (let m = nrows (h U); r = ncols (h U) in
      if m = 0 then Inl ZeroDivisionError else
      let h1 = h(U := rescale_rows (h U) (mu_U * real r / real m));
          n = nrows (h1 V); r = ncols (h1 V) in
      if n = 0 then Inl ZeroDivisionError else
      let h2 = h1(V := rescale_rows (h1 V) (mu_V * real r / real n)) in
      and_then (qr lib (h2 U)) (\<lambda>(Q1, R1).
      and_then (qr lib (h2 V)) (\<lambda>(Q2, R2).
      and_then (svd lib (mat_mul (mat_mul R1 Sig) (matT R2))) (\<lambda>(U_temp, Sig_out, V_temp).
      Inr (mat_mul Q1 U_temp, Sig_out, mat_mul Q2 V_temp, h2)))))"

definition trim ::
  "linalg \<Rightarrow> ref \<Rightarrow> matrix \<Rightarrow> ref \<Rightarrow> real \<Rightarrow> real \<Rightarrow> store
     \<Rightarrow> error + ((matrix \<times> matrix) \<times> store)" where
  "trim lib U Sig V mu_U mu_V h =
     and_then (trim_body lib U Sig V mu_U mu_V h) (\<lambda>(U_out, Sig_out, V_out, h').
     Inr ((U_out, V_out), h'))"

subsection \<open>The engine\<close>

text \<open>
  \<^verbatim>\<open>params\<close> is a dictionary read with \<^verbatim>\<open>params.get(key, default)\<close>: a
  record of optional entries. The default of \<^verbatim>\<open>'\<beta>'\<close> is
  \<^verbatim>\<open>1/(2*np.cbrt(np.prod(D.shape)/4))\<close>, for a matrix \<^verbatim>\<open>D\<close> that has entries.
\<close>

record params =
  p_niter :: "int option"
  p_eps :: "real option"
  p_beta :: "real option"
  p_beta_init :: "real option"
  p_gamma :: "real option"
  p_mu :: "real list option"
  p_trimming :: "bool option"

definition get :: "'a option \<Rightarrow> 'a \<Rightarrow> 'a" where
  "get entry dflt = (case entry of None \<Rightarrow> dflt | Some v \<Rightarrow> v)"

definition niter_of :: "params \<Rightarrow> int" where
  "niter_of p = get (p_niter p) 100"

definition eps_of :: "params \<Rightarrow> real" where
  "eps_of p = get (p_eps p) (1 / 100000)"

definition beta_of :: "matrix \<Rightarrow> params \<Rightarrow> real" where
  "beta_of D p = get (p_beta p) (1 / (2 * root 3 (real (nrows D * ncols D) / 4)))"

definition beta_init_of :: "matrix \<Rightarrow> params \<Rightarrow> real" where
  "beta_init_of D p = get (p_beta_init p) (4 * beta_of D p)"

definition gamma_of :: "params \<Rightarrow> real" where
  "gamma_of p = get (p_gamma p) (7 / 10)"

definition mu_of :: "params \<Rightarrow> real list" where
  "mu_of p = get (p_mu p) [5]"

definition trimming_of :: "params \<Rightarrow> bool" where
  "trimming_of p = get (p_trimming p) False"

text \<open>
  The local variables of \<^verbatim>\<open>AccAltProj\<close> that live across iterations.
  \<^verbatim>\<open>out = np.empty(niter)\<close> has \<^verbatim>\<open>niter\<close> slots of unspecified content
  (\<open>None\<close>); a write past its end raises IndexError.
\<close>

record state =
  st_U :: matrix
  st_Sigma :: "real list"
  st_V :: matrix
  st_L :: matrix
  st_S :: matrix
  st_zeta :: real
  st_out :: "npfloat option list"

definition residual :: "matrix \<Rightarrow> matrix \<Rightarrow> matrix \<Rightarrow> npfloat" where
  "residual D L' S' = np_div (norm_fro (mat_sub (mat_sub D L') S')) (norm_fro D)"

definition set_out :: "nat \<Rightarrow> npfloat \<Rightarrow> state \<Rightarrow> error + state" where
  "set_out k v st =
     (if k < length (st_out st) then Inr (st\<lparr>st_out := (st_out st)[k := Some v]\<rparr>)
      else Inl IndexError)"

text \<open>Lines 138 to 149: everything before the loop.\<close>

definition AccAltProj_init :: "linalg \<Rightarrow> matrix \<Rightarrow> nat \<Rightarrow> params \<Rightarrow> error + state" where
  "AccAltProj_init lib D r p =
     and_then (svds lib D 1) (\<lambda>(U1, s1, Vt1).
     and_then (index s1 0) (\<lambda>sigma1.
     let zeta = beta_init_of D p * sigma1;
         S' = hard_threshold D zeta in
     and_then (svds lib (mat_sub D S') r) (\<lambda>(U', Sigma', Vt).
     let V' = matT Vt;
         L' = mat_mul (mat_mul U' (diag Sigma')) Vt in
     and_then (index Sigma' 0) (\<lambda>sigma0.
     let zeta = beta_of D p * sigma0;
         S' = hard_threshold (mat_sub D L') zeta in
     if niter_of p < 0 then Inl ValueError else
     set_out 0 (residual D L' S')
       \<lparr>st_U = U', st_Sigma = Sigma', st_V = V', st_L = L', st_S = S', st_zeta = zeta,
        st_out = replicate (nat (niter_of p)) None\<rparr>))))"

text \<open>
  Lines 152 and 153. The engine's \<^verbatim>\<open>U\<close> and \<^verbatim>\<open>V\<close> are two distinct
  arrays, references 0 and 1 of the store handed to \<open>trim\<close>; the assignment
  \<^verbatim>\<open>U, V = trim(...)\<close> rebinds both names to the returned arrays.
\<close>

definition trim_step :: "linalg \<Rightarrow> nat \<Rightarrow> params \<Rightarrow> state \<Rightarrow> error + state" where
  "trim_step lib r p st =
     (if trimming_of p then
        and_then (index (mu_of p) 0) (\<lambda>mu0.
        and_then (index (mu_of p) (length (mu_of p) - 1)) (\<lambda>mu1.
        and_then (trim lib 0 (diag (take r (st_Sigma st))) 1 mu0 mu1
                    (\<lambda>a. if a = 0 then st_U st else st_V st)) (\<lambda>((U', V'), h').
        Inr (st\<lparr>st_U := U', st_V := V'\<rparr>))))
      else Inr st)"

text \<open>Lines 155 to 171: the projection, the new threshold and the write to the trace.\<close>

definition project_step ::
  "linalg \<Rightarrow> matrix \<Rightarrow> nat \<Rightarrow> params \<Rightarrow> nat \<Rightarrow> state \<Rightarrow> error + state" where
  "project_step lib D r p i st =
     (let U' = st_U st; V' = st_V st;
          Z = mat_sub D (st_S st) in
      and_then (qr lib (mat_sub (mat_mul (matT Z) U')
                                (mat_mul (mat_mul V' (matT (mat_mul Z V'))) U'))) (\<lambda>(Q1, R1).
      and_then (qr lib (mat_sub (mat_mul Z V')
                                (mat_mul (mat_mul (mat_mul U' (matT U')) Z) V'))) (\<lambda>(Q2, R2).
      let M = block (mat_mul (mat_mul (matT U') Z) V') (matT R1) R2 (zeros_like R2) in
      and_then (svd lib M) (\<lambda>(U_of_M, Sigma', V_of_M).
      let U' = mat_mul (hstack U' Q2) (take_cols r U_of_M);
          V' = mat_mul (hstack V' Q1) (take_cols r V_of_M);
          L' = mat_mul (mat_mul U' (diag (take r Sigma'))) (matT V') in
      and_then (index Sigma' r) (\<lambda>sigma_r.
      and_then (index Sigma' 0) (\<lambda>sigma_0.
      let zeta = beta_of D p * (sigma_r + gamma_of p ^ i * sigma_0);
          S' = hard_threshold (mat_sub D L') zeta in
      set_out (i + 1) (residual D L' S')
        (st\<lparr>st_U := U', st_Sigma := Sigma', st_V := V', st_L := L', st_S := S',
            st_zeta := zeta\<rparr>)))))))"

definition iteration ::
  "linalg \<Rightarrow> matrix \<Rightarrow> nat \<Rightarrow> params \<Rightarrow> nat \<Rightarrow> state \<Rightarrow> error + state" where
  "iteration lib D r p i st =
     and_then (trim_step lib r p st) (project_step lib D r p i)"

text \<open>
  \<^verbatim>\<open>for i in range(niter): ... if out[i+1] < eps: break\<close>, as a recursion over the
  values of \<^verbatim>\<open>i\<close> still to come.
\<close>

definition converged :: "params \<Rightarrow> nat \<Rightarrow> state \<Rightarrow> bool" where
  "converged p i st =
     (case st_out st ! (i + 1) of Some v \<Rightarrow> np_less v (eps_of p) | None \<Rightarrow> False)"

fun AccAltProj_loop ::
  "linalg \<Rightarrow> matrix \<Rightarrow> nat \<Rightarrow> params \<Rightarrow> nat list \<Rightarrow> state \<Rightarrow> error + state" where
  "AccAltProj_loop lib D r p [] st = Inr st"
| "AccAltProj_loop lib D r p (i # rest) st =
     and_then (iteration lib D r p i st) (\<lambda>st'.
     if converged p i st' then Inr st' else AccAltProj_loop lib D r p rest st')"

text \<open>\<open>AccAltProj_run\<close> is the function up to its \<^verbatim>\<open>return\<close> statement, with all the
  locals; \<open>AccAltProj\<close> returns what \<^verbatim>\<open>return L, S\<close> returns.\<close>

definition AccAltProj_run :: "linalg \<Rightarrow> matrix \<Rightarrow> nat \<Rightarrow> params \<Rightarrow> error + state" where
  "AccAltProj_run lib D r p =
     and_then (AccAltProj_init lib D r p)
       (AccAltProj_loop lib D r p [0..<nat (niter_of p)])"

definition AccAltProj :: "linalg \<Rightarrow> matrix \<Rightarrow> nat \<Rightarrow> params \<Rightarrow> error + (matrix \<times> matrix)" where
  "AccAltProj lib D r p =
     and_then (AccAltProj_run lib D r p) (\<lambda>st. Inr (st_L st, st_S st))"

subsection \<open>A reference instance of the library\<close>

text \<open>
  To run the model on concrete inputs the three library functions are instantiated on
  the matrices whose decompositions can be read off: square diagonal matrices with a
  non-negative, non-increasing diagonal, and single columns that are a non-negative
  multiple of the first unit vector. The instance follows scipy's conventions:
  \<^verbatim>\<open>svd\<close> returns the singular values in descending order, \<^verbatim>\<open>svds\<close> returns the
  \<^verbatim>\<open>k\<close> largest singular values in ascending order (its last step reverses the vector
  and the two factors), and \<^verbatim>\<open>svds\<close> accepts \<^verbatim>\<open>1 <= k < min(A.shape)\<close> only.
  Anywhere else the instance raises.
\<close>

definition diag_of :: "matrix \<Rightarrow> real list" where
  "diag_of A = map (\<lambda>i. A ! i ! i) [0..<nrows A]"

definition is_desc_diag :: "matrix \<Rightarrow> bool" where
  "is_desc_diag A =
     (A \<noteq> [] \<and> A = diag (diag_of A) \<and> sorted (rev (diag_of A)) \<and> list_all (\<lambda>x. 0 \<le> x) (diag_of A))"

definition ident :: "nat \<Rightarrow> matrix" where
  "ident n = diag (replicate n 1)"

definition svd_diag :: "matrix \<Rightarrow> error + (matrix \<times> real list \<times> matrix)" where
  "svd_diag A =
     (if is_desc_diag A then Inr (ident (nrows A), diag_of A, ident (nrows A))
      else Inl LinAlgError)"

definition svds_diag :: "matrix \<Rightarrow> nat \<Rightarrow> error + (matrix \<times> real list \<times> matrix)" where
  "svds_diag A k =
     (if is_desc_diag A then
        if 1 \<le> k \<and> k < nrows A then
          Inr (map (\<lambda>i. map (\<lambda>j. if i + j + 1 = k then 1 else 0) [0..<k]) [0..<nrows A],
               rev (take k (diag_of A)),
               map (\<lambda>j. map (\<lambda>i. if i + j + 1 = k then 1 else 0) [0..<nrows A]) [0..<k])
        else Inl ValueError
      else Inl LinAlgError)"

definition qr_e1 :: "matrix \<Rightarrow> error + (matrix \<times> matrix)" where
  "qr_e1 A =
     (if A \<noteq> [] \<and> 0 \<le> A ! 0 ! 0 \<and> A = map (\<lambda>i. [if i = 0 then A ! 0 ! 0 else 0]) [0..<nrows A]
      then Inr (map (\<lambda>i. [if i = 0 then 1 else 0]) [0..<nrows A], [[A ! 0 ! 0]])
      else Inl LinAlgError)"

definition diag_lib :: linalg where
  "diag_lib = \<lparr>svds = svds_diag, svd = svd_diag, qr = qr_e1\<rparr>"

subsection \<open>Shapes and orthonormal columns\<close>

text \<open>An \<open>m\<close> by \<open>n\<close> array, and \<open>A\<^sup>t A = I\<close> for the columns of \<open>A\<close>.\<close>

definition is_mat :: "nat \<Rightarrow> nat \<Rightarrow> matrix \<Rightarrow> bool" where
  "is_mat m n A = (length A = m \<and> list_all (\<lambda>row. length row = n) A)"

definition orthonormal_cols :: "matrix \<Rightarrow> bool" where
  "orthonormal_cols A = (mat_mul (matT A) A = ident (ncols A))"

section \<open>The reference instance on the inputs used below\<close>

lemmas mat_defs = nrows_def ncols_def col_def dot_def matT_def mat_mul_def mat_sub_def diag_def
  hstack_def zeros_like_def block_def take_cols_def row_norm_square_def norm_fro_def

lemmas lib_defs = diag_lib_def svd_diag_def svds_diag_def qr_e1_def is_desc_diag_def
  diag_of_def ident_def

text \<open>
  The decompositions that the runs below ask of the library. Each \<^verbatim>\<open>svds\<close> result
  lists the retained singular values in ascending order with the singular vectors in the
  matching order; \<open>U diag(s) Vh\<close> is the input with its smaller singular values dropped.
\<close>

lemma svds_diag_examples:
  "svds_diag [[12, 0], [0, 5]] 1 = Inr ([[1], [0]], [12], [[1, 0]])"
  "svds_diag [[1, 0], [0, 0]] 1 = Inr ([[1], [0]], [1], [[1, 0]])"
  "svds_diag [[0, 0], [0, 0]] 1 = Inr ([[1], [0]], [0], [[1, 0]])"
  "svds_diag [[2, 0, 0], [0, 1, 0], [0, 0, 0]] 1 = Inr ([[1], [0], [0]], [2], [[1, 0, 0]])"
  "svds_diag [[2, 0, 0], [0, 1, 0], [0, 0, 0]] 2
     = Inr ([[0, 1], [1, 0], [0, 0]], [1, 2], [[0, 1, 0], [1, 0, 0]])"
  "mat_mul (mat_mul [[0, 1], [1, 0], [0, 0]] (diag [1, 2])) [[0, 1, 0], [1, 0, 0]]
     = [[2, 0, 0], [0, 1, 0], [0, 0, 0]]"
  by (simp_all add: mat_defs lib_defs numeral_2_eq_2)

lemma svd_diag_examples:
  "svd_diag [[12, 0], [0, 0]] = Inr ([[1, 0], [0, 1]], [12, 0], [[1, 0], [0, 1]])"
  "svd_diag [[1, 0], [0, 0]] = Inr ([[1, 0], [0, 1]], [1, 0], [[1, 0], [0, 1]])"
  "svd_diag [[9 / 16]] = Inr ([[1]], [9 / 16], [[1]])"
  "svd_diag [[1]] = Inr ([[1]], [1], [[1]])"
  by (simp_all add: mat_defs lib_defs)

lemma qr_e1_examples:
  "qr_e1 [[0], [0]] = Inr ([[1], [0]], [[0]])"
  "qr_e1 [[3 / 4], [0]] = Inr ([[1], [0]], [[3 / 4]])"
  "qr_e1 [[1], [0], [0]] = Inr ([[1], [0], [0]], [[1]])"
  "mat_mul [[1], [0]] [[3 / 4]] = [[3 / 4], [0]]"
  by (simp_all add: mat_defs lib_defs)

section \<open>The thresholding operators\<close>

text \<open>
  C7. Stated for every entry, the property reads: the entry of
  \<open>hard_threshold X t\<close> is 0 exactly when the entry of \<open>X\<close> has absolute value below
  \<open>t\<close>. An entry of \<open>X\<close> that is 0 passes the test \<^verbatim>\<open>np.abs(x) >= 0\<close> at threshold 0
  and stays 0, so the equivalence fails there.
\<close>

theorem hard_threshold_zero_counterexample:
  "(0::real) \<le> 0 \<and> hard_threshold [[0]] 0 ! 0 ! 0 = 0 \<and> \<not> \<bar>[[0::real]] ! 0 ! 0\<bar> < 0"
  by (simp add: hard_threshold_def)

text \<open>
  C7, amended. \<open>hard_threshold X 0\<close> is \<open>X\<close>; for \<open>t \<ge> 0\<close> every entry of
  \<open>hard_threshold X t\<close> is 0 or the entry of \<open>X\<close>, and it is 0 exactly when the entry
  of \<open>X\<close> has absolute value below \<open>t\<close> or is itself 0.
\<close>

theorem hard_threshold_entries:
  assumes "0 \<le> t" and "i < length X" and "j < length (X ! i)"
  shows "hard_threshold X 0 = X
       \<and> (hard_threshold X t ! i ! j = 0 \<or> hard_threshold X t ! i ! j = X ! i ! j)
       \<and> (hard_threshold X t ! i ! j = 0 \<longleftrightarrow> \<bar>X ! i ! j\<bar> < t \<or> X ! i ! j = 0)"
proof -
  have "hard_threshold X 0 = X"
    by (simp add: hard_threshold_def map_idI)
  moreover have "hard_threshold X t ! i ! j = X ! i ! j * (if \<bar>X ! i ! j\<bar> \<ge> t then 1 else 0)"
    using assms(2,3) by (simp add: hard_threshold_def)
  ultimately show ?thesis by auto
qed

theorem hard_threshold_entries_witness:
  "(0::real) \<le> 1 \<and> 0 < length [[3, - 1 / 2, 0 :: real]] \<and> 1 < length ([[3, - 1 / 2, 0 :: real]] ! 0)
   \<and> hard_threshold [[3, - 1 / 2, 0]] 0 = [[3, - 1 / 2, 0]]
   \<and> hard_threshold [[3, - 1 / 2, 0]] 1 ! 0 ! 1 = 0"
  using hard_threshold_entries [of 1 0 "[[3, - 1 / 2, 0]]" 1] by simp

text \<open>
  C6. Neither operator has a check of its threshold or a \<^verbatim>\<open>raise\<close>: the model of
  each is a total function to matrices. Called with the threshold \<open>-1\<close>, both return a
  matrix.
\<close>

theorem negative_threshold_counterexample:
  "(- 1 :: real) < 0 \<and> hard_threshold [[1, - 2]] (- 1) = [[1, - 2]]
   \<and> soft_threshold [[1, - 2]] (- 1) = [[2, - 3]]"
  by (simp add: hard_threshold_def soft_threshold_def)

text \<open>
  C6, amended. With a negative threshold \<open>t\<close> no call is rejected:
  \<open>hard_threshold\<close> returns \<open>X\<close> unchanged, and \<open>soft_threshold\<close> returns the matrix of
  the entries \<open>sign(x) * (|x| - t)\<close>, each magnitude grown by \<open>|t|\<close>.
\<close>

theorem negative_threshold_returns:
  assumes "t < 0"
  shows "hard_threshold X t = X
       \<and> soft_threshold X t = map (map (\<lambda>v. sgn v * (\<bar>v\<bar> - t))) X"
proof -
  have "\<And>v::real. \<bar>v\<bar> \<ge> t" using assms by arith
  then have "hard_threshold X t = X"
    by (simp add: hard_threshold_def map_idI)
  moreover have "\<And>v::real. max (\<bar>v\<bar> - t) 0 = \<bar>v\<bar> - t" using assms by arith
  then have "soft_threshold X t = map (map (\<lambda>v. sgn v * (\<bar>v\<bar> - t))) X"
    by (simp add: soft_threshold_def)
  ultimately show ?thesis by simp
qed

theorem negative_threshold_returns_witness:
  "(- 1 :: real) < 0 \<and> hard_threshold [[1, - 2]] (- 1) = [[1, - 2]]
   \<and> soft_threshold [[1, - 2]] (- 1) = map (map (\<lambda>v. sgn v * (\<bar>v\<bar> - (- 1)))) [[1, - 2]]"
  using negative_threshold_returns [of "- 1" "[[1, - 2]]"] by simp

section \<open>The trimmer\<close>

lemma sum_list_scale_sq:
  "sum_list (map (\<lambda>v. v ^ 2) (map (\<lambda>v. v * c) row)) = c ^ 2 * sum_list (map (\<lambda>v. v ^ 2) row)"
  for c :: real
  by (induction row) (simp_all add: power_mult_distrib algebra_simps)

text \<open>
  What the rescaling step does to a row above the bound, for any array: the row is
  multiplied by \<open>b / sqrt s\<close>, after which its norm is \<open>b\<close> and its squared norm is \<open>b\<^sup>2\<close>.
\<close>

lemma rescale_rows_scaled_row:
  fixes mu :: real
  assumes "i < nrows A" and "0 < mu"
    and "mu * real (ncols A) / real (nrows A) < row_norm_square A ! i"
  shows "rescale_rows A (mu * real (ncols A) / real (nrows A)) ! i
           = map (\<lambda>v. v * ((mu * real (ncols A) / real (nrows A)) / sqrt (row_norm_square A ! i)))
               (A ! i)
       \<and> row_norm_square (rescale_rows A (mu * real (ncols A) / real (nrows A))) ! i
           = (mu * real (ncols A) / real (nrows A)) ^ 2
       \<and> sqrt (row_norm_square (rescale_rows A (mu * real (ncols A) / real (nrows A))) ! i)
           = mu * real (ncols A) / real (nrows A)"
proof -
  define b where "b = mu * real (ncols A) / real (nrows A)"
  define s where "s = row_norm_square A ! i"
  have i: "i < length A" using assms(1) by (simp add: nrows_def)
  have s: "s = sum_list (map (\<lambda>v. v ^ 2) (A ! i))"
    using i by (simp add: s_def row_norm_square_def)
  have b0: "0 \<le> b" using assms(2) by (simp add: b_def)
  have bs: "b < s" using assms(3) by (simp add: b_def s_def)
  have s0: "0 < s" using b0 bs by simp
  have row: "rescale_rows A b ! i = map (\<lambda>v. v * (b / sqrt s)) (A ! i)"
    using i bs by (simp add: rescale_rows_def s Let_def)
  have "row_norm_square (rescale_rows A b) ! i
          = sum_list (map (\<lambda>v. v ^ 2) (rescale_rows A b ! i))"
    using i by (simp add: row_norm_square_def rescale_rows_def)
  also have "\<dots> = (b / sqrt s) ^ 2 * s"
    by (simp only: row sum_list_scale_sq s)
  also have "\<dots> = b ^ 2"
    using s0 by (simp add: power_divide)
  finally have sq: "row_norm_square (rescale_rows A b) ! i = b ^ 2" .
  then have "sqrt (row_norm_square (rescale_rows A b) ! i) = b"
    using b0 by simp
  with row sq show ?thesis
    by (simp add: b_def s_def)
qed

text \<open>
  C3. The claim: a row of \<^verbatim>\<open>U\<close> whose squared norm \<open>s\<close> exceeds the bound
  \<open>b = \<mu>\<^sub>U r / m\<close> is multiplied by \<open>sqrt (b / s)\<close>, so that immediately after rescaling
  its squared norm is exactly \<open>b\<close>. The source tests the squared norm against \<open>b\<close> and
  then multiplies the row by \<^verbatim>\<open>(mu_U * r / m) / np.sqrt(row_norm_square_U)\<close>: the
  square root is taken of \<open>s\<close> only, and the two lines disagree on what \<open>b\<close> bounds. The
  code at the column \<open>U = (3/5, 4/5)\<close> of norm 1 with \<open>\<mu>\<^sub>U = 1\<close>: the bound is \<open>1/2\<close>, the
  second row has \<open>s = 16/25\<close> above it and is multiplied by \<open>(1/2) / (4/5)\<close>; it becomes
  \<open>1/2\<close>, with squared norm \<open>1/4\<close> where the claim says \<open>1/2\<close>. The first row has
  \<open>s = 9/25\<close>, passes the test and keeps its norm \<open>3/5\<close>. The same step doubles the row
  \<open>(3, 4)\<close> at the bound \<open>10\<close>.
\<close>

theorem trim_rescale_missing_sqrt:
  "orthonormal_cols [[3 / 5], [4 / 5]]
   \<and> 1 * real (ncols [[3 / 5], [4 / 5]]) / real (nrows [[3 / 5], [4 / 5]]) = 1 / 2
   \<and> row_norm_square [[3 / 5], [4 / 5]] = [9 / 25, 16 / 25]
   \<and> rescale_rows [[3 / 5], [4 / 5]] (1 / 2) = [[3 / 5], [1 / 2]]
   \<and> row_norm_square (rescale_rows [[3 / 5], [4 / 5]] (1 / 2)) ! 1 = 1 / 4
   \<and> row_norm_square (rescale_rows [[3 / 5], [4 / 5]] (1 / 2)) ! 1 \<noteq> 1 / 2
   \<and> rescale_rows [[3, 4]] 10 = [[6, 8]]"
  by (simp add: orthonormal_cols_def rescale_rows_def mat_defs ident_def power2_eq_square
        real_sqrt_divide)

section \<open>The engine: control flow\<close>

lemmas run_defs = and_then_def index_def set_out_def residual_def np_div_def np_less_def
  hard_threshold_def rescale_rows_def get_def niter_of_def eps_of_def beta_of_def
  beta_init_of_def gamma_of_def mu_of_def trimming_of_def Let_def

lemmas eng_defs = AccAltProj_def AccAltProj_run_def AccAltProj_init_def iteration_def
  trim_step_def project_step_def converged_def

lemma set_out_Inr:
  "set_out k v st = Inr st' \<Longrightarrow>
     k < length (st_out st) \<and> st' = st\<lparr>st_out := (st_out st)[k := Some v]\<rparr>"
  by (auto simp: set_out_def split: if_splits)

lemma trim_step_out:
  "trim_step lib r p st = Inr st' \<Longrightarrow> st_out st' = st_out st"
  by (auto simp: trim_step_def and_then_def split: if_splits sum.splits prod.splits)

lemma project_step_out:
  assumes "project_step lib D r p i st = Inr st'"
  shows "i + 1 < length (st_out st) \<and> length (st_out st') = length (st_out st)
         \<and> st_S st' = hard_threshold (mat_sub D (st_L st')) (st_zeta st')"
  using assms
  by (auto simp: project_step_def and_then_def Let_def split: sum.splits prod.splits
           dest!: set_out_Inr)

lemma iteration_out:
  assumes "iteration lib D r p i st = Inr st'"
  shows "i + 1 < length (st_out st) \<and> length (st_out st') = length (st_out st)
         \<and> st_S st' = hard_threshold (mat_sub D (st_L st')) (st_zeta st')"
  using assms project_step_out trim_step_out
  by (fastforce simp: iteration_def and_then_def split: sum.splits)

lemma init_out:
  assumes "AccAltProj_init lib D r p = Inr st"
  shows "0 < length (st_out st) \<and> length (st_out st) = nat (niter_of p)
         \<and> st_S st = hard_threshold (mat_sub D (st_L st)) (st_zeta st)"
  using assms
  by (auto simp: AccAltProj_init_def and_then_def Let_def
           split: sum.splits prod.splits if_splits dest!: set_out_Inr)

text \<open>
  A loop that returns has either run no iteration at all, or left through the
  \<^verbatim>\<open>break\<close>, or its last iteration wrote inside the trace array.
\<close>

lemma loop_Inr:
  assumes "AccAltProj_loop lib D r p is st = Inr st'"
  shows "(st' = st \<and> is = []) \<or>
         (\<exists>i \<in> set is. \<exists>stp. iteration lib D r p i stp = Inr st'
            \<and> length (st_out stp) = length (st_out st) \<and> converged p i st') \<or>
         (is \<noteq> [] \<and> last is + 1 < length (st_out st))"
  using assms
proof (induction "is" arbitrary: st)
  case Nil
  then show ?case by simp
next
  case (Cons i rest)
  from Cons.prems obtain st1 where it: "iteration lib D r p i st = Inr st1"
    and rest: "(if converged p i st1 then Inr st1 else AccAltProj_loop lib D r p rest st1)
                 = Inr st'"
    by (auto simp: and_then_def split: sum.splits)
  note io = iteration_out [OF it]
  show ?case
  proof (cases "converged p i st1")
    case True
    with rest have "st' = st1" by simp
    with True it show ?thesis by auto
  next
    case False
    with rest have "AccAltProj_loop lib D r p rest st1 = Inr st'" by simp
    from Cons.IH [OF this] io show ?thesis by auto
  qed
qed

text \<open>
  The trace array has \<^verbatim>\<open>niter\<close> slots and iteration \<^verbatim>\<open>i\<close> writes slot
  \<^verbatim>\<open>i+1\<close>, so the last iteration of a full loop cannot write its residual: whatever
  the library returns, every run that returns has left the loop through the
  \<^verbatim>\<open>break\<close>, at an iteration before the last one.
\<close>

lemma AccAltProj_run_returns_converged:
  assumes "AccAltProj_run lib D r p = Inr st"
  shows "\<exists>i stp. int (i + 1) < niter_of p \<and> iteration lib D r p i stp = Inr st
             \<and> converged p i st
             \<and> st_S st = hard_threshold (mat_sub D (st_L st)) (st_zeta st)"
proof -
  from assms obtain st0 where i0: "AccAltProj_init lib D r p = Inr st0"
    and lp: "AccAltProj_loop lib D r p [0..<nat (niter_of p)] st0 = Inr st"
    by (auto simp: AccAltProj_run_def and_then_def split: sum.splits)
  have len: "length (st_out st0) = nat (niter_of p)"
    using init_out [OF i0] by simp
  have pos: "0 < nat (niter_of p)"
    using init_out [OF i0] by linarith
  from loop_Inr [OF lp] pos len obtain i stp
    where it: "iteration lib D r p i stp = Inr st"
      and l: "length (st_out stp) = nat (niter_of p)" and c: "converged p i st"
    by (auto simp: last_upt)
  from iteration_out [OF it] l have "i + 1 < nat (niter_of p)"
    and t: "st_S st = hard_threshold (mat_sub D (st_L st)) (st_zeta st)"
    by simp_all
  then have "int (i + 1) < niter_of p" by linarith
  with it c t show ?thesis by blast
qed

text \<open>
  C1. The claim: when the relative residual stays at or above the tolerance in all
  \<^verbatim>\<open>niter\<close> iterations, \<^verbatim>\<open>AccAltProj\<close> returns the last \<open>(L, S)\<close> without an error.
  The code at \<open>D = diag(12, 5)\<close>, \<open>r = 1\<close>, \<^verbatim>\<open>params = {'niter': 2, '\<beta>': 1}\<close>: after
  iteration 0 the trace is \<open>[5/13, 5/13]\<close>, both entries far above the default tolerance
  \<open>1e-5\<close>; iteration 1, the last of the budget, writes \<^verbatim>\<open>out[2]\<close> into an array of two
  slots, and the call ends with IndexError instead of returning.
\<close>

theorem AccAltProj_budget_exhausted:
  "map_sum id st_out
     (and_then (AccAltProj_init diag_lib [[12, 0], [0, 5]] 1
                  \<lparr>p_niter = Some 2, p_eps = None, p_beta = Some 1, p_beta_init = None,
                   p_gamma = None, p_mu = None, p_trimming = None\<rparr>)
        (iteration diag_lib [[12, 0], [0, 5]] 1
                  \<lparr>p_niter = Some 2, p_eps = None, p_beta = Some 1, p_beta_init = None,
                   p_gamma = None, p_mu = None, p_trimming = None\<rparr> 0))
     = Inr [Some (Fin (5 / 13)), Some (Fin (5 / 13))]
   \<and> AccAltProj diag_lib [[12, 0], [0, 5]] 1
        \<lparr>p_niter = Some 2, p_eps = None, p_beta = Some 1, p_beta_init = None,
         p_gamma = None, p_mu = None, p_trimming = None\<rparr>
     = Inl IndexError"
  by (simp add: eng_defs mat_defs lib_defs run_defs numeral_2_eq_2)






section \<open>The engine: thresholds and singular values\<close>

text \<open>
  After the initialization the threshold is \<^verbatim>\<open>\<beta> * Sigma[0]\<close>, the first entry of the
  vector that \<^verbatim>\<open>svds(D - S, r)\<close> returned, in the order in which it was returned.
\<close>

lemma AccAltProj_init_zeta:
  assumes "AccAltProj_init lib D r p = Inr st"
  shows "st_Sigma st \<noteq> [] \<and> st_zeta st = beta_of D p * st_Sigma st ! 0"
  using assms
  by (auto simp: AccAltProj_init_def and_then_def Let_def index_def
           split: sum.splits prod.splits if_splits dest!: set_out_Inr)

text \<open>
  C5. The claim: after the initialization the threshold is \<^verbatim>\<open>\<beta>\<close> times the largest of
  the \<open>r\<close> retained singular values. \<^verbatim>\<open>svds\<close> returns its singular values in ascending
  order, so \<^verbatim>\<open>Sigma[0]\<close> is the smallest of them. The code at \<open>D = diag(2, 1, 0)\<close>,
  \<open>r = 2\<close>, \<^verbatim>\<open>params = {'\<beta>': 1/2}\<close>: the first threshold is \<open>4\<close>, \<open>S\<close> is zero,
  \<^verbatim>\<open>svds(D - S, 2)\<close> returns the singular values \<open>[1, 2]\<close>, and the threshold becomes
  \<open>1/2 * 1\<close>, not \<open>1/2 * 2\<close>.
\<close>

theorem AccAltProj_init_zeta_smallest:
  "map_sum id (\<lambda>st. (st_Sigma st, st_zeta st))
     (AccAltProj_init diag_lib [[2, 0, 0], [0, 1, 0], [0, 0, 0]] 2
        \<lparr>p_niter = None, p_eps = None, p_beta = Some (1 / 2), p_beta_init = None,
         p_gamma = None, p_mu = None, p_trimming = None\<rparr>)
     = Inr ([1, 2], 1 / 2)
   \<and> (1 / 2 :: real) \<noteq> 1 / 2 * Max (set [1, 2])"
  by (simp add: eng_defs mat_defs lib_defs run_defs numeral_2_eq_2)

text \<open>
  C4. \<open>trim\<close> computes \<^verbatim>\<open>Sig_out\<close> and drops it: its \<^verbatim>\<open>return U_out, V_out\<close>
  hands back two arrays, and the engine's \<^verbatim>\<open>U, V = trim(...)\<close> assigns two names. For the
  columns \<open>U = V = (1, 0)\<close>, \<open>\<Sigma> = (1)\<close> and \<open>\<mu> = 3/2\<close> the refreshed singular value is
  \<open>9/16\<close>; the value returned is the pair of columns, and the engine's \<^verbatim>\<open>Sigma\<close> after
  the trimming step is still \<open>[1]\<close>.
\<close>

theorem trim_drops_Sig_out_counterexample:
  "map_sum id (\<lambda>(U_out, Sig_out, V_out, h'). Sig_out)
     (trim_body diag_lib 0 [[1]] 1 (3 / 2) (3 / 2) (\<lambda>a. [[1], [0]])) = Inr [9 / 16]
   \<and> map_sum id fst
     (trim diag_lib 0 [[1]] 1 (3 / 2) (3 / 2) (\<lambda>a. [[1], [0]])) = Inr ([[1], [0]], [[1], [0]])
   \<and> map_sum id st_Sigma
     (trim_step diag_lib 1
        \<lparr>p_niter = Some 2, p_eps = None, p_beta = None, p_beta_init = None,
         p_gamma = None, p_mu = Some [3 / 2], p_trimming = Some True\<rparr>
        \<lparr>st_U = [[1], [0]], st_Sigma = [1], st_V = [[1], [0]], st_L = [[1, 0], [0, 0]],
         st_S = [[0, 0], [0, 0]], st_zeta = 1 / 2, st_out = [Some (Fin 0), None]\<rparr>)
     = Inr [1]"
  by (simp add: trim_def trim_body_def eng_defs mat_defs lib_defs run_defs)

text \<open>
  C4, amended. \<open>trim\<close> delivers \<open>U'\<close> and \<open>V'\<close> only. The engine's singular values are
  the same after the trimming step as before it, and the projection that follows does not
  read them: it replaces them by the singular values of the block matrix \<open>M\<close>.
\<close>

theorem trim_step_keeps_Sigma:
  assumes "trim_step lib r p st = Inr st'"
  shows "st_Sigma st' = st_Sigma st
       \<and> project_step lib D r p i (st'\<lparr>st_Sigma := s\<rparr>) = project_step lib D r p i st'"
proof -
  have "st_Sigma st' = st_Sigma st"
    using assms
    by (auto simp: trim_step_def and_then_def split: if_splits sum.splits prod.splits)
  moreover have "project_step lib D r p i (st'\<lparr>st_Sigma := s\<rparr>) = project_step lib D r p i st'"
    by (simp add: project_step_def set_out_def Let_def)
  ultimately show ?thesis by simp
qed

theorem trim_step_keeps_Sigma_witness:
  "st_Sigma \<lparr>st_U = [[1], [0]], st_Sigma = [1], st_V = [[1], [0]], st_L = [[1, 0], [0, 0]],
         st_S = [[0, 0], [0, 0]], st_zeta = 1 / 2, st_out = [Some (Fin 0), None]\<rparr>
     = st_Sigma \<lparr>st_U = [[1], [0]], st_Sigma = [1], st_V = [[1], [0]], st_L = [[1, 0], [0, 0]],
         st_S = [[0, 0], [0, 0]], st_zeta = 1 / 2, st_out = [Some (Fin 0), None]\<rparr>
   \<and> project_step diag_lib [[1, 0], [0, 0]] 1
        \<lparr>p_niter = Some 2, p_eps = None, p_beta = None, p_beta_init = None,
         p_gamma = None, p_mu = Some [3 / 2], p_trimming = Some True\<rparr> 0
       (\<lparr>st_U = [[1], [0]], st_Sigma = [1], st_V = [[1], [0]], st_L = [[1, 0], [0, 0]],
         st_S = [[0, 0], [0, 0]], st_zeta = 1 / 2, st_out = [Some (Fin 0), None]\<rparr>
        \<lparr>st_Sigma := [9 / 16]\<rparr>)
     = project_step diag_lib [[1, 0], [0, 0]] 1
        \<lparr>p_niter = Some 2, p_eps = None, p_beta = None, p_beta_init = None,
         p_gamma = None, p_mu = Some [3 / 2], p_trimming = Some True\<rparr> 0
       \<lparr>st_U = [[1], [0]], st_Sigma = [1], st_V = [[1], [0]], st_L = [[1, 0], [0, 0]],
         st_S = [[0, 0], [0, 0]], st_zeta = 1 / 2, st_out = [Some (Fin 0), None]\<rparr>"
proof -
  have "trim_step diag_lib 1
        \<lparr>p_niter = Some 2, p_eps = None, p_beta = None, p_beta_init = None,
         p_gamma = None, p_mu = Some [3 / 2], p_trimming = Some True\<rparr>
        \<lparr>st_U = [[1], [0]], st_Sigma = [1], st_V = [[1], [0]], st_L = [[1, 0], [0, 0]],
         st_S = [[0, 0], [0, 0]], st_zeta = 1 / 2, st_out = [Some (Fin 0), None]\<rparr>
     = Inr \<lparr>st_U = [[1], [0]], st_Sigma = [1], st_V = [[1], [0]], st_L = [[1, 0], [0, 0]],
         st_S = [[0, 0], [0, 0]], st_zeta = 1 / 2, st_out = [Some (Fin 0), None]\<rparr>"
    by (simp add: trim_def trim_body_def eng_defs mat_defs lib_defs run_defs)
  from trim_step_keeps_Sigma [OF this, of "[[1, 0], [0, 0]]" 0 "[9 / 16]"] show ?thesis .
qed

section \<open>The trimmer: orthonormal columns\<close>

text \<open>Entries of products and of \<open>A\<^sup>t A\<close> as sums over indices.\<close>

lemma dot_sum:
  assumes "length xs = length ys"
  shows "dot xs ys = (\<Sum>a<length xs. xs ! a * ys ! a)"
proof -
  have "dot xs ys = (\<Sum>a = 0..<length (zip xs ys). map2 (*) xs ys ! a)"
    by (simp add: dot_def sum_list_sum_nth)
  also have "\<dots> = (\<Sum>a<length xs. xs ! a * ys ! a)"
    using assms by (simp add: atLeast0LessThan)
  finally show ?thesis .
qed

lemma is_mat_row: "is_mat m n A \<Longrightarrow> i < m \<Longrightarrow> length (A ! i) = n"
  by (auto simp: is_mat_def list_all_length)

lemma is_mat_ncols: "is_mat m n A \<Longrightarrow> 0 < m \<Longrightarrow> ncols A = n"
  by (cases A) (auto simp: is_mat_def ncols_def)

lemma col_dot:
  assumes "is_mat m n A" and "i < n" and "j < n"
  shows "dot (col A i) (col A j) = (\<Sum>x<m. A ! x ! i * A ! x ! j)"
proof -
  have len: "length A = m" using assms(1) by (simp add: is_mat_def)
  have "dot (col A i) (col A j) = (\<Sum>x<length (col A i). col A i ! x * col A j ! x)"
    by (rule dot_sum) (simp add: col_def)
  also have "\<dots> = (\<Sum>x<m. A ! x ! i * A ! x ! j)"
    using len by (simp add: col_def)
  finally show ?thesis .
qed

lemma orthonormal_cols_iff:
  assumes "is_mat m n A" and "0 < m"
  shows "orthonormal_cols A \<longleftrightarrow>
           (\<forall>i<n. \<forall>j<n. dot (col A i) (col A j) = (if i = j then 1 else 0))"
proof -
  have nc: "ncols A = n" using assms by (rule is_mat_ncols)
  have lhs: "mat_mul (matT A) A
               = map (\<lambda>i. map (\<lambda>j. dot (col A i) (col A j)) [0..<n]) [0..<n]"
    by (simp add: mat_mul_def matT_def nc)
  have rhs: "ident n = map (\<lambda>i. map (\<lambda>j. if i = j then 1 else 0) [0..<n]) [0..<n]"
    by (simp add: ident_def diag_def)
  show ?thesis
    unfolding orthonormal_cols_def nc lhs rhs by (auto simp: map_eq_conv)
qed

lemma mat_mul_is_mat:
  assumes "is_mat m r Q"
  shows "is_mat m (ncols W) (mat_mul Q W)"
  using assms by (simp add: is_mat_def mat_mul_def list_all_length)

lemma col_mat_mul:
  assumes "i < ncols W"
  shows "col (mat_mul Q W) i = map (\<lambda>row. dot row (col W i)) Q"
  using assms by (simp add: col_def mat_mul_def)

lemma orthonormal_mat_mul:
  assumes Q: "is_mat m r Q" and oQ: "orthonormal_cols Q"
    and W: "is_mat r k W" and oW: "orthonormal_cols W"
    and m: "0 < m" and r: "0 < r"
  shows "orthonormal_cols (mat_mul Q W)"
proof -
  have ncW: "ncols W = k" using W r by (rule is_mat_ncols)
  have P: "is_mat m k (mat_mul Q W)" using mat_mul_is_mat [OF Q, of W] by (simp add: ncW)
  have lenQ: "length Q = m" using Q by (simp add: is_mat_def)
  have lenW: "length W = r" using W by (simp add: is_mat_def)
  have qq: "\<And>a b. a < r \<Longrightarrow> b < r \<Longrightarrow>
              (\<Sum>x<m. Q ! x ! a * Q ! x ! b) = (if a = b then 1 else 0)"
    using oQ col_dot [OF Q] by (simp add: orthonormal_cols_iff [OF Q m])
  have ww: "\<And>i j. i < k \<Longrightarrow> j < k \<Longrightarrow>
              (\<Sum>a<r. W ! a ! i * W ! a ! j) = (if i = j then 1 else 0)"
    using oW col_dot [OF W] by (simp add: orthonormal_cols_iff [OF W r])
  have row: "\<And>x i. x < m \<Longrightarrow> i < k \<Longrightarrow>
               dot (Q ! x) (col W i) = (\<Sum>a<r. Q ! x ! a * W ! a ! i)"
  proof -
    fix x i assume x: "x < m" and i: "i < k"
    have "length (Q ! x) = length (col W i)"
      using is_mat_row [OF Q x] lenW by (simp add: col_def)
    from dot_sum [OF this] show "dot (Q ! x) (col W i) = (\<Sum>a<r. Q ! x ! a * W ! a ! i)"
      using is_mat_row [OF Q x] lenW by (simp add: col_def)
  qed
  have "dot (col (mat_mul Q W) i) (col (mat_mul Q W) j) = (if i = j then 1 else 0)"
    if i: "i < k" and j: "j < k" for i j
  proof -
    have "dot (col (mat_mul Q W) i) (col (mat_mul Q W) j)
            = (\<Sum>x<m. mat_mul Q W ! x ! i * mat_mul Q W ! x ! j)"
      by (rule col_dot [OF P i j])
    also have "\<dots> = (\<Sum>x<m. (\<Sum>a<r. Q ! x ! a * W ! a ! i) * (\<Sum>b<r. Q ! x ! b * W ! b ! j))"
      using i j lenQ row by (simp add: mat_mul_def ncW)
    also have "\<dots> = (\<Sum>x<m. \<Sum>a<r. \<Sum>b<r. (W ! a ! i * W ! b ! j) * (Q ! x ! a * Q ! x ! b))"
      by (simp add: sum_product algebra_simps)
    also have "\<dots> = (\<Sum>a<r. \<Sum>x<m. \<Sum>b<r. (W ! a ! i * W ! b ! j) * (Q ! x ! a * Q ! x ! b))"
      by (rule sum.swap)
    also have "\<dots> = (\<Sum>a<r. \<Sum>b<r. \<Sum>x<m. (W ! a ! i * W ! b ! j) * (Q ! x ! a * Q ! x ! b))"
      by (rule sum.cong [OF refl]) (rule sum.swap)
    also have "\<dots> = (\<Sum>a<r. \<Sum>b<r. (W ! a ! i * W ! b ! j) * (\<Sum>x<m. Q ! x ! a * Q ! x ! b))"
      by (simp add: sum_distrib_left)
    also have "\<dots> = (\<Sum>a<r. \<Sum>b<r. (W ! a ! i * W ! b ! j) * (if a = b then 1 else 0))"
      using qq by simp
    also have "\<dots> = (\<Sum>a<r. W ! a ! i * W ! a ! j)"
      by (rule sum.cong [OF refl]) (simp add: if_distrib [of "\<lambda>z. _ * z"] cong: if_cong)
    also have "\<dots> = (if i = j then 1 else 0)"
      using ww [OF i j] .
    finally show ?thesis .
  qed
  then show ?thesis
    by (simp add: orthonormal_cols_iff [OF P m])
qed

text \<open>
  C8. The input is valid: \<open>U = V = (1, 0)\<close> is a column of norm 1, \<open>\<Sigma> = (1)\<close>,
  \<open>\<mu>\<^sub>U = \<mu>\<^sub>V = 3/2\<close>, \<open>r = 1 \<le> 2\<close>. The first row is scaled to \<open>3/4\<close>, and the QR
  step normalises the column again: \<open>trim\<close> returns \<open>U' = (1, 0)\<close>, whose first row has
  squared norm \<open>1\<close>, above the bound \<open>\<mu>\<^sub>U r / m = 3/4\<close>.
\<close>

theorem trim_row_bound_counterexample:
  "orthonormal_cols [[1], [0]] \<and> (0 :: real) < 3 / 2
   \<and> map_sum id fst (trim diag_lib 0 [[1]] 1 (3 / 2) (3 / 2) (\<lambda>a. [[1], [0]]))
        = Inr ([[1], [0]], [[1], [0]])
   \<and> 3 / 2 * real (1::nat) / real (2::nat) < row_norm_square [[1], [0]] ! 0"
  by (simp add: orthonormal_cols_def trim_def trim_body_def mat_defs lib_defs run_defs)

text \<open>
  C8, amended. When the factors that \<open>trim\<close> obtains from the library are what the
  library promises (\<open>Q1\<close> of shape \<open>m \<times> r\<close> and \<open>Q2\<close> of shape \<open>n \<times> r\<close> with orthonormal
  columns, the two factors of the small SVD of shape \<open>r \<times> r\<close> with orthonormal columns),
  the returned \<open>U' = Q1 U_temp\<close> and \<open>V' = Q2 V_temp\<close> have orthonormal columns. No bound
  on the rows of \<open>U'\<close> and \<open>V'\<close> is part of the statement.
\<close>

theorem trim_orthonormal:
  assumes "U \<noteq> V" and "nrows (h U) = m" and "nrows (h V) = n" and "0 < m" and "0 < n" and "0 < r"
    and "qr lib (rescale_rows (h U) (mu_U * real (ncols (h U)) / real m)) = Inr (Q1, R1)"
    and "qr lib (rescale_rows (h V) (mu_V * real (ncols (h V)) / real n)) = Inr (Q2, R2)"
    and "svd lib (mat_mul (mat_mul R1 Sig) (matT R2)) = Inr (U_temp, Sig_out, V_temp)"
    and "is_mat m r Q1" and "orthonormal_cols Q1"
    and "is_mat n r Q2" and "orthonormal_cols Q2"
    and "is_mat r r U_temp" and "orthonormal_cols U_temp"
    and "is_mat r r V_temp" and "orthonormal_cols V_temp"
  shows "map_sum id fst (trim lib U Sig V mu_U mu_V h)
           = Inr (mat_mul Q1 U_temp, mat_mul Q2 V_temp)
       \<and> orthonormal_cols (mat_mul Q1 U_temp) \<and> orthonormal_cols (mat_mul Q2 V_temp)"
proof -
  have "map_sum id fst (trim lib U Sig V mu_U mu_V h)
          = Inr (mat_mul Q1 U_temp, mat_mul Q2 V_temp)"
    using assms(1-9) by (simp add: trim_def trim_body_def and_then_def Let_def)
  moreover have "orthonormal_cols (mat_mul Q1 U_temp)"
    using assms by (intro orthonormal_mat_mul [of m r _ r])
  moreover have "orthonormal_cols (mat_mul Q2 V_temp)"
    using assms by (intro orthonormal_mat_mul [of n r _ r])
  ultimately show ?thesis by simp
qed

theorem trim_orthonormal_witness:
  "map_sum id fst (trim diag_lib 0 [[1]] 1 (3 / 2) (3 / 2) (\<lambda>a. [[1], [0]]))
     = Inr (mat_mul [[1], [0]] [[1]], mat_mul [[1], [0]] [[1]])
   \<and> orthonormal_cols (mat_mul [[1], [0]] [[1]]) \<and> orthonormal_cols (mat_mul [[1], [0]] [[1]])"
  by (rule trim_orthonormal [where m = 2 and n = 2 and r = 1 and ?R1.0 = "[[3 / 4]]"
        and ?R2.0 = "[[3 / 4]]" and Sig_out = "[9 / 16]"])
     (simp_all add: orthonormal_cols_def is_mat_def mat_defs lib_defs run_defs)

section \<open>The trimmer: what it leaves in its arguments\<close>








section \<open>The engine on the zero matrix\<close>

lemma dot_zeros_right: "dot xs (replicate k 0) = 0"
proof (induction xs arbitrary: k)
  case Nil
  then show ?case by (simp add: dot_def)
next
  case (Cons x xs)
  then show ?case by (cases k) (simp_all add: dot_def)
qed

lemma dot_zeros_left: "dot (replicate k 0) ys = 0"
proof (induction ys arbitrary: k)
  case Nil
  then show ?case by (simp add: dot_def)
next
  case (Cons y ys)
  then show ?case by (cases k) (simp_all add: dot_def)
qed

lemma diag_zeros:
  "diag (replicate k 0) = replicate k (replicate k 0)"
  by (auto simp: diag_def list_eq_iff_nth_eq)

lemma col_zeros: "j < k \<Longrightarrow> col (replicate q (replicate k 0)) j = replicate q 0"
  by (simp add: col_def)

lemma ncols_zeros: "ncols (replicate q (replicate k 0)) = (if q = 0 then 0 else k)"
  by (cases q) (simp_all add: ncols_def)

lemma mat_mul_zeros_right:
  "mat_mul A (replicate q (replicate k 0)) = map (\<lambda>row. replicate (if q = 0 then 0 else k) 0) A"
  by (auto simp: mat_mul_def ncols_zeros col_zeros dot_zeros_right list_eq_iff_nth_eq)

lemma mat_mul_zero_rows:
  "mat_mul (map (\<lambda>row. replicate k 0) A) B = replicate (length A) (replicate (ncols B) 0)"
  by (auto simp: mat_mul_def dot_zeros_left list_eq_iff_nth_eq)

lemma low_rank_zero:
  assumes "list_all (\<lambda>x. x = 0) s"
  shows "mat_mul (mat_mul A (diag s)) B = replicate (length A) (replicate (ncols B) 0)"
proof -
  have "s = replicate (length s) 0"
    using assms by (auto simp: list_eq_iff_nth_eq list_all_length)
  then have "diag s = replicate (length s) (replicate (length s) 0)"
    using diag_zeros [of "length s"] by simp
  then show ?thesis
    by (simp only: mat_mul_zeros_right mat_mul_zero_rows)
qed

lemma hard_threshold_zeros:
  "hard_threshold (replicate m (replicate n 0)) t = replicate m (replicate n 0)"
  by (simp add: hard_threshold_def)

lemma mat_sub_zeros:
  "mat_sub (replicate m (replicate n 0)) (replicate m (replicate n 0)) = replicate m (replicate n 0)"
  by (simp add: mat_sub_def)

lemma norm_fro_zeros: "norm_fro (replicate m (replicate n 0)) = 0"
  by (simp add: norm_fro_def row_norm_square_def sum_list_replicate)

lemma norm_fro_nonneg: "0 \<le> norm_fro A"
proof -
  have "0 \<le> sum_list (map (\<lambda>v. v ^ 2) row)" for row :: "real list"
    by (rule sum_list_nonneg) auto
  then have "0 \<le> sum_list (row_norm_square A)"
    unfolding row_norm_square_def by (intro sum_list_nonneg) auto
  then show ?thesis by (simp add: norm_fro_def)
qed

lemma residual_zero_D:
  "\<not> np_less (residual (replicate m (replicate n 0)) L' S') e"
  using norm_fro_nonneg [of "mat_sub (mat_sub (replicate m (replicate n 0)) L') S'"]
  by (auto simp: residual_def np_div_def np_less_def norm_fro_zeros)

lemma iteration_trace_entry:
  assumes "iteration lib D r p i stp = Inr st'"
  shows "\<exists>L' S'. st_out st' ! (i + 1) = Some (residual D L' S')"
proof -
  from assms obtain st1 where "project_step lib D r p i st1 = Inr st'"
    by (auto simp: iteration_def and_then_def split: sum.splits)
  then show ?thesis
    apply (auto simp: project_step_def and_then_def Let_def split: sum.splits prod.splits
                dest!: set_out_Inr)
    apply blast
    done
qed

text \<open>
  With \<open>D = 0\<close> the divisor \<^verbatim>\<open>norm(D,'fro')\<close> is 0, every residual is
  \<^verbatim>\<open>nan\<close> or \<^verbatim>\<open>inf\<close>, and no comparison with the tolerance succeeds: the loop
  never reaches its \<^verbatim>\<open>break\<close>.
\<close>

lemma zero_D_never_returns:
  "AccAltProj_run lib (replicate m (replicate n 0)) r p \<noteq> Inr st"
proof
  assume "AccAltProj_run lib (replicate m (replicate n 0)) r p = Inr st"
  from AccAltProj_run_returns_converged [OF this] obtain i stp
    where it: "iteration lib (replicate m (replicate n 0)) r p i stp = Inr st"
      and c: "converged p i st" by blast
  from iteration_trace_entry [OF it] obtain L' S'
    where "st_out st ! (i + 1) = Some (residual (replicate m (replicate n 0)) L' S')" by blast
  with c residual_zero_D show False by (simp add: converged_def)
qed

text \<open>
  C9. Default configuration, \<open>D\<close> the 2 by 2 zero matrix, \<open>r = 1\<close>. The first trace value
  is \<open>0/0\<close>, \<^verbatim>\<open>nan\<close>, which is not below the tolerance; the call does not return
  \<open>(0, 0)\<close>, it does not return at all.
\<close>

theorem zero_matrix_counterexample:
  "map_sum id (\<lambda>st. st_out st ! 0)
     (AccAltProj_init diag_lib [[0, 0], [0, 0]] 1
        \<lparr>p_niter = None, p_eps = None, p_beta = None, p_beta_init = None,
         p_gamma = None, p_mu = None, p_trimming = None\<rparr>) = Inr (Some NaN)
   \<and> \<not> np_less NaN (eps_of
        \<lparr>p_niter = None, p_eps = None, p_beta = None, p_beta_init = None,
         p_gamma = None, p_mu = None, p_trimming = None\<rparr>)
   \<and> (\<forall>res. AccAltProj diag_lib [[0, 0], [0, 0]] 1
        \<lparr>p_niter = None, p_eps = None, p_beta = None, p_beta_init = None,
         p_gamma = None, p_mu = None, p_trimming = None\<rparr> \<noteq> Inr res)"
proof -
  let ?p = "\<lparr>p_niter = None, p_eps = None, p_beta = None, p_beta_init = None,
         p_gamma = None, p_mu = None, p_trimming = None\<rparr>"
  have "map_sum id (\<lambda>st. st_out st ! 0) (AccAltProj_init diag_lib [[0, 0], [0, 0]] 1 ?p)
          = Inr (Some NaN)"
    by (simp add: eng_defs mat_defs lib_defs run_defs)
  moreover have "\<not> np_less NaN (eps_of ?p)"
    by (simp add: np_less_def)
  moreover have "AccAltProj diag_lib [[0, 0], [0, 0]] 1 ?p \<noteq> Inr res" for res
    using zero_D_never_returns [of diag_lib 2 2 1 ?p]
    by (auto simp: AccAltProj_def and_then_def numeral_2_eq_2 split: sum.splits)
  ultimately show ?thesis by blast
qed

text \<open>
  C9, amended. When \<open>D\<close> is the \<open>m\<close> by \<open>n\<close> zero matrix and the truncated SVD of the
  zero matrix reports singular values that are all 0, the initialization yields \<open>L = 0\<close>
  and \<open>S = 0\<close> and records \<open>0/0\<close>, \<^verbatim>\<open>nan\<close>, as first trace value, which is not below
  the tolerance. No convergence test is made before the loop: iteration 0 is run.
\<close>

theorem zero_matrix_init:
  assumes D: "D = replicate m (replicate n 0)"
    and s1: "svds lib D 1 = Inr (U1, s1, Vt1)" "s1 \<noteq> []"
    and sr: "svds lib D r = Inr (U', Sigma', Vt)" "Sigma' \<noteq> []" "list_all (\<lambda>x. x = 0) Sigma'"
    and shape: "nrows U' = m" "ncols Vt = n"
    and niter: "0 < niter_of p"
  shows "\<exists>st. AccAltProj_init lib D r p = Inr st
            \<and> st_L st = D \<and> st_S st = D \<and> st_out st ! 0 = Some NaN
            \<and> \<not> np_less NaN (eps_of p)
            \<and> AccAltProj_run lib D r p =
                and_then (iteration lib D r p 0 st) (\<lambda>st'.
                  if converged p 0 st' then Inr st'
                  else AccAltProj_loop lib D r p [Suc 0..<nat (niter_of p)] st')"
proof -
  have L: "mat_mul (mat_mul U' (diag Sigma')) Vt = D"
    using low_rank_zero [OF sr(3), of U' Vt] shape by (simp add: D nrows_def)
  have res: "residual D D D = NaN"
    by (simp add: residual_def D mat_sub_zeros norm_fro_zeros np_div_def)
  define st where "st = \<lparr>st_U = U', st_Sigma = Sigma', st_V = matT Vt, st_L = D, st_S = D,
      st_zeta = beta_of D p * Sigma' ! 0,
      st_out = (replicate (nat (niter_of p)) None)[0 := Some NaN]\<rparr>"
  have S1: "hard_threshold D t = D" for t by (simp add: D hard_threshold_zeros)
  have sub: "mat_sub D D = D" by (simp add: D mat_sub_zeros)
  have init: "AccAltProj_init lib D r p = Inr st"
    using s1 sr(1,2) niter
    by (simp add: AccAltProj_init_def and_then_def index_def Let_def S1 sub L res set_out_def
          st_def)
  have upt: "[0..<nat (niter_of p)] = 0 # [Suc 0..<nat (niter_of p)]"
    using niter by (simp add: upt_conv_Cons)
  have run: "AccAltProj_run lib D r p =
                and_then (iteration lib D r p 0 st) (\<lambda>st'.
                  if converged p 0 st' then Inr st'
                  else AccAltProj_loop lib D r p [Suc 0..<nat (niter_of p)] st')"
    by (simp add: AccAltProj_run_def init upt and_then_def)
  have out0: "st_out st ! 0 = Some NaN"
    using niter by (simp add: st_def)
  show ?thesis
    using init run out0 by (auto simp: st_def np_less_def)
qed

theorem zero_matrix_init_witness:
  "\<exists>st. AccAltProj_init diag_lib [[0, 0], [0, 0]] 1
            \<lparr>p_niter = None, p_eps = None, p_beta = None, p_beta_init = None,
             p_gamma = None, p_mu = None, p_trimming = None\<rparr> = Inr st
      \<and> st_L st = [[0, 0], [0, 0]] \<and> st_S st = [[0, 0], [0, 0]] \<and> st_out st ! 0 = Some NaN
      \<and> \<not> np_less NaN (eps_of
            \<lparr>p_niter = None, p_eps = None, p_beta = None, p_beta_init = None,
             p_gamma = None, p_mu = None, p_trimming = None\<rparr>)
      \<and> AccAltProj_run diag_lib [[0, 0], [0, 0]] 1
            \<lparr>p_niter = None, p_eps = None, p_beta = None, p_beta_init = None,
             p_gamma = None, p_mu = None, p_trimming = None\<rparr> =
          and_then (iteration diag_lib [[0, 0], [0, 0]] 1
            \<lparr>p_niter = None, p_eps = None, p_beta = None, p_beta_init = None,
             p_gamma = None, p_mu = None, p_trimming = None\<rparr> 0 st) (\<lambda>st'.
            if converged
              \<lparr>p_niter = None, p_eps = None, p_beta = None, p_beta_init = None,
               p_gamma = None, p_mu = None, p_trimming = None\<rparr> 0 st' then Inr st'
            else AccAltProj_loop diag_lib [[0, 0], [0, 0]] 1
              \<lparr>p_niter = None, p_eps = None, p_beta = None, p_beta_init = None,
               p_gamma = None, p_mu = None, p_trimming = None\<rparr>
              [Suc 0..<nat (niter_of
                \<lparr>p_niter = None, p_eps = None, p_beta = None, p_beta_init = None,
                 p_gamma = None, p_mu = None, p_trimming = None\<rparr>)] st')"
  by (rule zero_matrix_init [where m = 2 and n = 2 and ?U1.0 = "[[1], [0]]" and ?s1.0 = "[0]"
        and ?Vt1.0 = "[[1, 0]]" and U' = "[[1], [0]]" and Sigma' = "[0]" and Vt = "[[1, 0]]"])
     (simp_all add: mat_defs lib_defs niter_of_def get_def numeral_2_eq_2)

end
